theory Spec2Isabelle
  imports Complex_Main
begin

section \<open>Execution configuration (pipeline.py)\<close>

text \<open>
  \<^verbatim>\<open>torch.dtype\<close> values that \<^verbatim>\<open>DiffusersPipeline._resolve_dtype\<close> can return.
\<close>

datatype dtype = Float16 | BFloat16 | Float32

text \<open>
  The two hardware probes read by \<^verbatim>\<open>_resolve_device\<close>:
  \<^verbatim>\<open>torch.cuda.is_available()\<close> and
  \<^verbatim>\<open>hasattr(torch.backends, "mps") and torch.backends.mps.is_available()\<close>.
\<close>

record hardware =
  cuda_is_available :: bool
  mps_is_available :: bool

definition resolve_device :: "hardware \<Rightarrow> string \<Rightarrow> string" where
  "resolve_device hw device =
     (if device \<noteq> ''auto'' then device
      else if cuda_is_available hw then ''cuda''
      else if mps_is_available hw then ''mps''
      else ''cpu'')"

text \<open>
  \<^verbatim>\<open>_resolve_dtype\<close> reads \<^verbatim>\<open>self.device\<close>, which \<^verbatim>\<open>__init__\<close> has
  set to the resolved device just before; it is the first argument \<open>dev\<close> here.
\<close>

definition resolve_dtype :: "string \<Rightarrow> string \<Rightarrow> dtype" where
  "resolve_dtype dev precision =
     (if precision = ''fp16'' then Float16
      else if precision = ''bf16'' then BFloat16
      else if precision = ''fp32'' then Float32
      else if precision = ''auto'' then
        (if dev = ''cuda'' \<or> dev = ''mps'' then Float16 else Float32)
      else Float32)"

text \<open>
  The first two assignments of \<^verbatim>\<open>DiffusersPipeline.__init__\<close> after
  \<^verbatim>\<open>model_path\<close>: the resolved (device, dtype) pair.
\<close>

definition init_config :: "hardware \<Rightarrow> string \<Rightarrow> string \<Rightarrow> string \<times> dtype" where
  "init_config hw device precision =
     (let dev = resolve_device hw device;
          dt = resolve_dtype dev precision
      in (dev, dt))"

section \<open>Python values used by both modules\<close>

text \<open>
  Exceptions are values. \<open>ValueError\<close> and \<open>RuntimeError\<close> are the two classes the
  source raises itself; \<open>OtherException\<close> stands for any other subclass of
  \<^verbatim>\<open>Exception\<close> raised by a library. The string is what \<^verbatim>\<open>str(e)\<close> gives.
\<close>

datatype py_exception = ValueError string | RuntimeError string | OtherException string

fun str_exc :: "py_exception \<Rightarrow> string" where
  "str_exc (ValueError m) = m"
| "str_exc (RuntimeError m) = m"
| "str_exc (OtherException m) = m"

section \<open>Model runtime (pipeline.py)\<close>

text \<open>
  \<^verbatim>\<open>torch.Generator(device=self.device).manual_seed(seed)\<close>: the device it is bound to
  and its seed.
\<close>

record generator =
  gen_device :: string
  gen_seed :: int

text \<open>
  The \<^verbatim>\<open>kwargs\<close> dictionary that \<^verbatim>\<open>generate\<close> builds for the underlying model. The
  six keys that are always present are plain fields; the keys \<^verbatim>\<open>generator\<close> and
  \<^verbatim>\<open>negative_prompt\<close> are present only on some paths: \<open>None\<close> is an absent key.
\<close>

record pipeline_kwargs =
  kw_prompt :: string
  kw_num_images_per_prompt :: int
  kw_width :: int
  kw_height :: int
  kw_num_inference_steps :: int
  kw_guidance_scale :: real
  kw_generator :: "generator option"
  kw_negative_prompt :: "string option"

text \<open>
  The arguments of one call of \<^verbatim>\<open>DiffusersPipeline.generate\<close>. Every parameter but
  \<^verbatim>\<open>prompt\<close> has a default, so a caller may leave it out: \<open>None\<close> is an argument
  the caller did not pass (for \<^verbatim>\<open>negative_prompt\<close> and \<^verbatim>\<open>seed\<close>, whose default is
  Python's \<^verbatim>\<open>None\<close>, also an explicit \<^verbatim>\<open>None\<close>).
\<close>

record generate_args =
  arg_prompt :: string
  arg_num_images :: "int option"
  arg_width :: "int option"
  arg_height :: "int option"
  arg_num_inference_steps :: "int option"
  arg_guidance_scale :: "real option"
  arg_negative_prompt :: "string option"
  arg_seed :: "int option"

text \<open>
  The three loaders of the \<^verbatim>\<open>diffusers\<close> library that \<^verbatim>\<open>_load_pipeline\<close> imports.
\<close>

datatype loader = DiffusionPipeline | StableDiffusionXLPipeline | StableDiffusionPipeline

text \<open>
  Everything outside the repository that the code calls, as one record of functions:
  the file system probe, \<^verbatim>\<open>from_pretrained\<close> of a loader (model path,
  \<^verbatim>\<open>torch_dtype\<close>, \<^verbatim>\<open>local_files_only\<close>), the methods of a loaded pipeline object of
  type \<open>'p\<close> (each may raise; the mutating ones return the object after the call), the
  exception, if any, that \<^verbatim>\<open>torch.Generator(device=...).manual_seed(seed)\<close> raises
  for a device and a seed, the
  call of the model itself with \<^verbatim>\<open>.images\<close> taken from its result, the PNG and base64
  encoding of one image of type \<open>'i\<close>, the clock (\<^verbatim>\<open>int(time.time())\<close>) and the
  \<^verbatim>\<open>repr\<close> of a list of strings used in one message.
\<close>

record ('p, 'i) world =
  os_path_exists :: "string \<Rightarrow> bool"
  from_pretrained :: "loader \<Rightarrow> string \<Rightarrow> dtype \<Rightarrow> bool \<Rightarrow> py_exception + 'p"
  pipeline_to :: "'p \<Rightarrow> string \<Rightarrow> py_exception + 'p"
  pipeline_enable_attention_slicing :: "'p \<Rightarrow> py_exception + 'p"
  pipeline_enable_xformers :: "'p \<Rightarrow> py_exception + 'p"
  generator_error :: "string \<Rightarrow> int \<Rightarrow> py_exception option"
  pipeline_call :: "'p \<Rightarrow> pipeline_kwargs \<Rightarrow> py_exception + 'i list"
  png_base64 :: "'i \<Rightarrow> string"
  time_now :: int
  repr_names :: "string list \<Rightarrow> string"

text \<open>
  \<^verbatim>\<open>os.path.join(a, b)\<close> on a POSIX system, for two components.
\<close>

definition os_path_join :: "string \<Rightarrow> string \<Rightarrow> string" where
  "os_path_join a b =
     (if b \<noteq> [] \<and> hd b = CHR ''/'' then b
      else if a = [] \<or> last a = CHR ''/'' then a @ b
      else a @ ''/'' @ b)"

text \<open>
  The second half of \<^verbatim>\<open>_load_pipeline\<close>, after the \<^verbatim>\<open>try\<close> block: the loaded
  pipeline is moved to the device, attention slicing is enabled when requested, and on
  cuda the memory efficient attention is tried. An exception of the device move or of
  attention slicing leaves the method as it is; a failure of
  \<^verbatim>\<open>enable_xformers_memory_efficient_attention\<close> is caught and dropped.
\<close>

definition post_load :: "('p, 'i) world \<Rightarrow> 'p \<Rightarrow> string \<Rightarrow> bool \<Rightarrow> py_exception + 'p" where
  "post_load w p0 dev attention_slicing =
     (case pipeline_to w p0 dev of
        Inl e \<Rightarrow> Inl e
      | Inr p1 \<Rightarrow>
          (case (if attention_slicing then pipeline_enable_attention_slicing w p1
                 else Inr p1) of
             Inl e \<Rightarrow> Inl e
           | Inr p2 \<Rightarrow>
               Inr (if dev = ''cuda'' then
                      (case pipeline_enable_xformers w p2 of
                         Inr p3 \<Rightarrow> p3
                       | Inl _ \<Rightarrow> p2)
                    else p2)))"

text \<open>
  \<^verbatim>\<open>_load_pipeline\<close>. The arguments are the fields of \<^verbatim>\<open>self\<close> it reads. The result
  is what the method returns or raises, with the list of loaders it attempted, in order.
  The outer \<^verbatim>\<open>try\<close> covers the loaders only and turns their exception into the
  \<^verbatim>\<open>RuntimeError\<close>; what follows it is \<open>post_load\<close>.
\<close>

definition load_pipeline ::
  "('p, 'i) world \<Rightarrow> string \<Rightarrow> string \<Rightarrow> dtype \<Rightarrow> bool \<Rightarrow> (py_exception + 'p) \<times> loader list" where
  "load_pipeline w model_path dev dt attention_slicing =
     (let model_index_path = os_path_join model_path ''model_index.json'';
          (loaded, attempts) =
            (if os_path_exists w model_index_path then
               (from_pretrained w DiffusionPipeline model_path dt True, [DiffusionPipeline])
             else
               (case from_pretrained w StableDiffusionXLPipeline model_path dt True of
                  Inr p \<Rightarrow> (Inr p, [StableDiffusionXLPipeline])
                | Inl _ \<Rightarrow>
                    (from_pretrained w StableDiffusionPipeline model_path dt True,
                     [StableDiffusionXLPipeline, StableDiffusionPipeline])))
      in case loaded of
           Inl e \<Rightarrow>
             (Inl (RuntimeError
                (''Failed to load diffusers model from '' @ model_path @ '': '' @ str_exc e)),
              attempts)
         | Inr p0 \<Rightarrow> (post_load w p0 dev attention_slicing, attempts))"

text \<open>
  A \<^verbatim>\<open>DiffusersPipeline\<close> object: the fields \<^verbatim>\<open>__init__\<close> assigns.
\<close>

record 'p DiffusersPipeline =
  self_model_path :: string
  self_device :: string
  self_dtype :: dtype
  self_enable_attention_slicing :: bool
  self_pipeline :: 'p

definition DiffusersPipeline_init ::
  "('p, 'i) world \<Rightarrow> hardware \<Rightarrow> string \<Rightarrow> string \<Rightarrow> string \<Rightarrow> bool
     \<Rightarrow> py_exception + 'p DiffusersPipeline" where
  "DiffusersPipeline_init w hw model_path device precision attention_slicing =
     (let (dev, dt) = init_config hw device precision
      in case fst (load_pipeline w model_path dev dt attention_slicing) of
           Inl e \<Rightarrow> Inl e
         | Inr p \<Rightarrow>
             Inr \<lparr>self_model_path = model_path, self_device = dev, self_dtype = dt,
                  self_enable_attention_slicing = attention_slicing, self_pipeline = p\<rparr>)"

text \<open>
  The \<^verbatim>\<open>kwargs\<close> that \<^verbatim>\<open>generate\<close> builds: the defaults of its signature
  (\<^verbatim>\<open>num_images=1, width=1024, height=1024, num_inference_steps=30,
  guidance_scale=7.5, negative_prompt=None, seed=None\<close>) fill the arguments left out,
  a generator is made only for a seed, and the two optional keys are set only when
  their value is not \<^verbatim>\<open>None\<close>. (Whether making the generator raises is decided in
  \<open>generate\<close> below; these are the \<^verbatim>\<open>kwargs\<close> when it does not.)
\<close>

definition generate_kwargs :: "'p DiffusersPipeline \<Rightarrow> generate_args \<Rightarrow> pipeline_kwargs" where
  "generate_kwargs self a =
     (let num_images = (case arg_num_images a of None \<Rightarrow> 1 | Some v \<Rightarrow> v);
          width = (case arg_width a of None \<Rightarrow> 1024 | Some v \<Rightarrow> v);
          height = (case arg_height a of None \<Rightarrow> 1024 | Some v \<Rightarrow> v);
          num_inference_steps = (case arg_num_inference_steps a of None \<Rightarrow> 30 | Some v \<Rightarrow> v);
          guidance_scale = (case arg_guidance_scale a of None \<Rightarrow> 7.5 | Some v \<Rightarrow> v);
          generator =
            (case arg_seed a of
               None \<Rightarrow> None
             | Some seed \<Rightarrow> Some \<lparr>gen_device = self_device self, gen_seed = seed\<rparr>)
      in \<lparr>kw_prompt = arg_prompt a,
          kw_num_images_per_prompt = num_images,
          kw_width = width,
          kw_height = height,
          kw_num_inference_steps = num_inference_steps,
          kw_guidance_scale = guidance_scale,
          kw_generator = generator,
          kw_negative_prompt = arg_negative_prompt a\<rparr>)"

text \<open>
  \<^verbatim>\<open>generate\<close>: when a seed is given the generator is made first, and an exception
  of \<^verbatim>\<open>torch.Generator\<close> or \<^verbatim>\<open>manual_seed\<close> leaves the method; then one call
  of the model with these \<^verbatim>\<open>kwargs\<close>, whose exception leaves the method unchanged
  too.
\<close>

definition generate ::
  "('p, 'i) world \<Rightarrow> 'p DiffusersPipeline \<Rightarrow> generate_args \<Rightarrow> py_exception + 'i list" where
  "generate w self a =
     (case (case arg_seed a of
              None \<Rightarrow> None
            | Some seed \<Rightarrow> generator_error w (self_device self) seed) of
        Some e \<Rightarrow> Inl e
      | None \<Rightarrow> pipeline_call w (self_pipeline self) (generate_kwargs self a))"

section \<open>Request translator (server.py)\<close>

subsection \<open>The string operations of the Python library\<close>

text \<open>
  Python's \<^verbatim>\<open>str\<close> is modelled by \<^typ>\<open>string\<close>, and faithfully so for ASCII
  strings (\<open>is_ascii\<close> below): there \<^verbatim>\<open>str.lower\<close> changes the letters A to Z only.
\<close>

definition lower_char :: "char \<Rightarrow> char" where
  "lower_char c =
     (let k = (of_char c :: nat) in if 65 \<le> k \<and> k \<le> 90 then char_of (k + 32) else c)"

definition lower_str :: "string \<Rightarrow> string" where
  "lower_str s = map lower_char s"

text \<open>
  \<^verbatim>\<open>s.split(sep)\<close> for a separator of one character: the pieces between the
  occurrences of the separator, empty pieces kept, so the empty string gives one empty
  piece.
\<close>

fun split_str :: "char \<Rightarrow> string \<Rightarrow> string list" where
  "split_str sep [] = [[]]"
| "split_str sep (c # cs) =
     (if c = sep then [] # split_str sep cs
      else (case split_str sep cs of
              p # ps \<Rightarrow> (c # p) # ps
            | [] \<Rightarrow> [[c]]))"

text \<open>
  \<^verbatim>\<open>int(s)\<close> for a string, base ten, as CPython scans an ASCII string: white space
  (tab, line feed, vertical tab, form feed, carriage return, space), one optional sign,
  decimal digits with single underscores allowed between two digits, white space, end of
  string, and no more digits than the interpreter's limit on integer strings (4300 by
  default since CPython 3.11; underscores do not count, leading zeros do).
  \<open>None\<close> is the \<^verbatim>\<open>ValueError\<close> it raises otherwise. The model is \<^verbatim>\<open>int\<close> on
  ASCII strings only: in a string with other characters \<^verbatim>\<open>int\<close> also strips Unicode
  white space and reads the decimal digits of other scripts, which are not modelled, so
  every statement about the parser is made for the strings that satisfy \<open>is_ascii\<close>.
\<close>

definition is_ascii :: "string \<Rightarrow> bool" where
  "is_ascii s = list_all (\<lambda>c. (of_char c :: nat) < 128) s"

definition int_max_str_digits :: nat where
  "int_max_str_digits = 4300"

definition py_isspace :: "char \<Rightarrow> bool" where
  "py_isspace c = (let k = (of_char c :: nat) in (9 \<le> k \<and> k \<le> 13) \<or> k = 32)"

definition is_digit :: "char \<Rightarrow> bool" where
  "is_digit c = (let k = (of_char c :: nat) in 48 \<le> k \<and> k \<le> 57)"

definition digit_val :: "char \<Rightarrow> nat" where
  "digit_val c = of_char c - 48"

definition is_digit_or_underscore :: "char \<Rightarrow> bool" where
  "is_digit_or_underscore c = (is_digit c \<or> c = CHR ''_'')"

fun digits_ok :: "string \<Rightarrow> bool" where
  "digits_ok [] = False"
| "digits_ok [c] = is_digit c"
| "digits_ok (c # d # cs) =
     (is_digit c \<and> (if d = CHR ''_'' then digits_ok cs else digits_ok (d # cs)))"

definition digits_value :: "string \<Rightarrow> nat" where
  "digits_value cs = foldl (\<lambda>acc c. 10 * acc + digit_val c) 0 (filter is_digit cs)"

text \<open>
  The scan after the sign: \<open>sign\<close> is 1 or -1 and \<open>s2\<close> the text that follows the
  sign.
\<close>

definition int_digits :: "int \<Rightarrow> string \<Rightarrow> int option" where
  "int_digits sign s2 =
     (let body = takeWhile is_digit_or_underscore s2;
          rest = dropWhile is_digit_or_underscore s2
      in if digits_ok body \<and> length (filter is_digit body) \<le> int_max_str_digits
            \<and> dropWhile py_isspace rest = []
         then Some (sign * int (digits_value body))
         else None)"

definition py_int :: "string \<Rightarrow> int option" where
  "py_int s =
     (let s1 = dropWhile py_isspace s
      in case s1 of
           [] \<Rightarrow> int_digits 1 s1
         | c # cs \<Rightarrow>
             if c = CHR ''+'' then int_digits 1 cs
             else if c = CHR ''-'' then int_digits (- 1) cs
             else int_digits 1 s1)"

subsection \<open>Size parsing\<close>

text \<open>
  \<^verbatim>\<open>parse_size\<close>. Both \<^verbatim>\<open>raise\<close> statements build the same \<^verbatim>\<open>ValueError\<close>: the
  one in the \<^verbatim>\<open>try\<close> body is caught by the handler below it and raised again, and so
  is the \<^verbatim>\<open>ValueError\<close> of a failing \<^verbatim>\<open>int\<close>.
\<close>

definition parse_size :: "string \<Rightarrow> py_exception + (int \<times> int)" where
  "parse_size size_str =
     (let parts = split_str (CHR ''x'') (lower_str size_str)
      in if length parts \<noteq> 2 then Inl (ValueError (''Invalid size format: '' @ size_str))
         else (case py_int (parts ! 0) of
                 None \<Rightarrow> Inl (ValueError (''Invalid size format: '' @ size_str))
               | Some width \<Rightarrow>
                   (case py_int (parts ! 1) of
                      None \<Rightarrow> Inl (ValueError (''Invalid size format: '' @ size_str))
                    | Some height \<Rightarrow> Inr (width, height))))"

text \<open>
  The reading of the size format that the parser is compared with: the string has
  exactly one separator, an \<open>x\<close> of either case, and the text before it and the text
  after it are both integers in the sense of \<^const>\<open>py_int\<close>.
\<close>

definition is_sep :: "char \<Rightarrow> bool" where
  "is_sep c = (c = CHR ''x'' \<or> c = CHR ''X'')"

text \<open>
  The characters that can occur in an integer string: digits, white space, the two
  signs and the underscore.
\<close>

definition int_char :: "char \<Rightarrow> bool" where
  "int_char c = (is_digit c \<or> py_isspace c \<or> c = CHR ''+'' \<or> c = CHR ''-'' \<or> c = CHR ''_'')"

definition size_form :: "string \<Rightarrow> (int \<times> int) option" where
  "size_form s =
     (if length (filter is_sep s) = 1 then
        (case py_int (takeWhile (\<lambda>c. \<not> is_sep c) s) of
           None \<Rightarrow> None
         | Some w \<Rightarrow>
             (case py_int (tl (dropWhile (\<lambda>c. \<not> is_sep c) s)) of
                None \<Rightarrow> None
              | Some h \<Rightarrow> Some (w, h)))
      else None)"

text \<open>
  The decimal numeral of an integer, as \<^verbatim>\<open>str\<close> prints it: the digits without
  leading zeros, after a minus sign for a negative number. It is used to state that the
  parser reads back the numbers written in a size string.
\<close>

fun decimal :: "nat \<Rightarrow> string" where
  "decimal n =
     (if n < 10 then [char_of (48 + n)]
      else decimal (n div 10) @ [char_of (48 + n mod 10)])"

declare decimal.simps [simp del]

definition int_literal :: "int \<Rightarrow> string" where
  "int_literal i = (if i < 0 then CHR ''-'' # decimal (nat (- i)) else decimal (nat i))"

subsection \<open>The generation endpoint\<close>

text \<open>
  \<^verbatim>\<open>ImageGenerationRequest\<close>, after the framework has validated the body against the
  schema. The bounds \<^verbatim>\<open>ge=1, le=10\<close> of the field \<^verbatim>\<open>n\<close> are the predicate
  \<open>request_valid\<close>: the handler runs on requests that satisfy it.
\<close>

record ImageGenerationRequest =
  req_model :: string
  req_prompt :: string
  req_n :: int
  req_size :: string
  req_quality :: string
  req_response_format :: string
  req_style :: string

definition request_valid :: "ImageGenerationRequest \<Rightarrow> bool" where
  "request_valid r = (1 \<le> req_n r \<and> req_n r \<le> 10)"

record ImageData =
  img_url :: "string option"
  img_b64_json :: "string option"
  img_revised_prompt :: "string option"

record ImageGenerationResponse =
  resp_created :: int
  resp_data :: "ImageData list"

text \<open>
  What the handler gives back to the framework: the response model (status 200) or an
  \<^verbatim>\<open>HTTPException\<close> with its status code and detail.
\<close>

datatype http_result = HTTPException int string | Success ImageGenerationResponse

fun status_code :: "http_result \<Rightarrow> int" where
  "status_code (HTTPException code detail) = code"
| "status_code (Success resp) = 200"

text \<open>
  The two module globals \<^verbatim>\<open>_pipeline\<close> and \<^verbatim>\<open>_served_model_names\<close>.
\<close>

record 'p globals =
  pipeline_global :: "'p DiffusersPipeline option"
  served_model_names :: "string list"

definition apostrophe :: string where
  "apostrophe = [CHR 0x27]"

text \<open>
  The loop that fills \<^verbatim>\<open>data\<close>: it tests \<^verbatim>\<open>response_format\<close> once for each image,
  inside the loop body, and raises at the first image when the format is not
  \<^verbatim>\<open>b64_json\<close>.
\<close>

fun encode_images ::
  "('p, 'i) world \<Rightarrow> string \<Rightarrow> 'i list \<Rightarrow> ImageData list \<Rightarrow> http_result + ImageData list" where
  "encode_images w fmt [] data = Inr data"
| "encode_images w fmt (img # imgs) data =
     (if fmt = ''b64_json'' then
        encode_images w fmt imgs
          (data @ [\<lparr>img_url = None, img_b64_json = Some (png_base64 w img),
                     img_revised_prompt = None\<rparr>])
      else
        Inl (HTTPException 400
               (''response_format '' @ apostrophe @ ''url'' @ apostrophe @
                '' not supported, use '' @ apostrophe @ ''b64_json'' @ apostrophe)))"

text \<open>
  \<^verbatim>\<open>generate_images\<close>, the handler of \<^verbatim>\<open>POST /v1/images/generations\<close>. The second
  component of the result is the list of calls of \<^verbatim>\<open>_pipeline.generate\<close> the handler
  made, each with the arguments it passed: the handler passes five keyword arguments
  and leaves \<^verbatim>\<open>guidance_scale\<close>, \<^verbatim>\<open>negative_prompt\<close> and \<^verbatim>\<open>seed\<close> out.
\<close>

definition generate_images ::
  "('p, 'i) world \<Rightarrow> 'p globals \<Rightarrow> ImageGenerationRequest \<Rightarrow> http_result \<times> generate_args list" where
  "generate_images w g request =
     (case pipeline_global g of
        None \<Rightarrow> (HTTPException 503 ''Model not loaded'', [])
      | Some pl \<Rightarrow>
          if served_model_names g \<noteq> [] \<and> req_model request \<notin> set (served_model_names g) then
            (HTTPException 404
               (''Model '' @ apostrophe @ req_model request @ apostrophe @
                '' not found. Available: '' @ repr_names w (served_model_names g)), [])
          else
            (case parse_size (req_size request) of
               Inl e \<Rightarrow> (HTTPException 400 (str_exc e), [])
             | Inr (width, height) \<Rightarrow>
                 (let num_inference_steps = (if req_quality request = ''hd'' then 50 else 30);
                      call = \<lparr>arg_prompt = req_prompt request,
                              arg_num_images = Some (req_n request),
                              arg_width = Some width,
                              arg_height = Some height,
                              arg_num_inference_steps = Some num_inference_steps,
                              arg_guidance_scale = None,
                              arg_negative_prompt = None,
                              arg_seed = None\<rparr>
                  in case generate w pl call of
                       Inl e \<Rightarrow> (HTTPException 500 (str_exc e), [call])
                     | Inr images \<Rightarrow>
                         (case encode_images w (req_response_format request) images [] of
                            Inl exc \<Rightarrow> (exc, [call])
                          | Inr data \<Rightarrow>
                              (Success \<lparr>resp_created = time_now w, resp_data = data\<rparr>,
                               [call])))))"

subsection \<open>A concrete server, for running the definitions\<close>

text \<open>
  A small world in which everything can be computed: no manifest file, loaders that
  succeed, images that are numbers (the model returns the images \<open>0, 1, \<dots>\<close>, as many
  as asked for, and refuses a negative count), and the scenario of a runtime serving the
  one name \<open>m1\<close> with the request for two 512 by 512 images of a cat.
\<close>

definition example_world :: "(unit, nat) world" where
  "example_world =
     \<lparr>os_path_exists = (\<lambda>path. False),
      from_pretrained = (\<lambda>l path dt local_only. Inr ()),
      pipeline_to = (\<lambda>p dev. Inr p),
      pipeline_enable_attention_slicing = (\<lambda>p. Inr p),
      pipeline_enable_xformers = (\<lambda>p. Inr p),
      generator_error = (\<lambda>dev seed. None),
      pipeline_call =
        (\<lambda>p kw. if 0 \<le> kw_num_images_per_prompt kw
                then Inr [0 ..< nat (kw_num_images_per_prompt kw)]
                else Inl (ValueError ''negative image count'')),
      png_base64 = (\<lambda>img. replicate (Suc img) (CHR ''A'')),
      time_now = 1700000000,
      repr_names = concat\<rparr>"

definition example_pipeline :: "unit DiffusersPipeline" where
  "example_pipeline =
     \<lparr>self_model_path = ''/models/sd'', self_device = ''cpu'', self_dtype = Float32,
      self_enable_attention_slicing = False, self_pipeline = ()\<rparr>"

definition example_globals :: "unit globals" where
  "example_globals = \<lparr>pipeline_global = Some example_pipeline, served_model_names = [''m1'']\<rparr>"

definition example_request :: ImageGenerationRequest where
  "example_request =
     \<lparr>req_model = ''m1'', req_prompt = ''a cat'', req_n = 2, req_size = ''512x512'',
      req_quality = ''hd'', req_response_format = ''b64_json'', req_style = ''vivid''\<rparr>"

text \<open>
  A world for loading in which a pipeline object is the name of the loader that made it
  with the list of the operations applied to it since, so that what
  \<^verbatim>\<open>_load_pipeline\<close> returns can be read off. The manifest exists under
  \<open>/models/auto\<close> only; the loaders succeed except under \<open>/models/broken\<close>, and the
  Stable Diffusion XL loader fails also under \<open>/models/sd15\<close>; the device
  \<open>cuda\<close> is not available.
\<close>

definition loading_world :: "(loader \<times> string list, nat) world" where
  "loading_world =
     \<lparr>os_path_exists = (\<lambda>path. path = ''/models/auto/model_index.json''),
      from_pretrained =
        (\<lambda>l path dt local_only.
           if path = ''/models/broken'' then Inl (OtherException ''no weights'')
           else if path = ''/models/sd15'' \<and> l = StableDiffusionXLPipeline
             then Inl (OtherException ''not an XL model'')
           else Inr (l, [])),
      pipeline_to =
        (\<lambda>p dev. if dev = ''cuda'' then Inl (OtherException ''CUDA is not available'')
                  else Inr (fst p, snd p @ [''to '' @ dev])),
      pipeline_enable_attention_slicing = (\<lambda>p. Inr (fst p, snd p @ [''attention slicing''])),
      pipeline_enable_xformers = (\<lambda>p. Inl (OtherException ''xformers is not installed'')),
      generator_error = (\<lambda>dev seed. None),
      pipeline_call = (\<lambda>p kw. Inr []),
      png_base64 = (\<lambda>img. []),
      time_now = 1700000000,
      repr_names = concat\<rparr>"

section \<open>Precision resolution\<close>

text \<open>
  Claim C4. Precision resolution: the hints fp16, bf16 and fp32 give the corresponding
  numeric type whatever the device; the hint auto gives fp16 when the resolved device is
  cuda or mps and fp32 otherwise; every other hint string gives fp32. The resolver is a
  total function into the three numeric types, so no hint makes it raise.
\<close>

theorem resolve_dtype_table:
  "resolve_dtype d ''fp16'' = Float16 \<and>
   resolve_dtype d ''bf16'' = BFloat16 \<and>
   resolve_dtype d ''fp32'' = Float32 \<and>
   resolve_dtype d ''auto'' = (if d = ''cuda'' \<or> d = ''mps'' then Float16 else Float32) \<and>
   (p \<noteq> ''fp16'' \<and> p \<noteq> ''bf16'' \<and> p \<noteq> ''fp32'' \<and> p \<noteq> ''auto''
      \<longrightarrow> resolve_dtype d p = Float32)"
  by (simp add: resolve_dtype_def)

theorem resolve_dtype_table_witness:
  "resolve_dtype ''cpu'' ''fp16'' = Float16 \<and>
   resolve_dtype ''cpu'' ''bf16'' = BFloat16 \<and>
   resolve_dtype ''cpu'' ''fp32'' = Float32 \<and>
   resolve_dtype ''cpu'' ''auto'' = Float32 \<and>
   ''float64'' \<noteq> ''fp16'' \<and> ''float64'' \<noteq> ''bf16'' \<and> ''float64'' \<noteq> ''fp32'' \<and>
   ''float64'' \<noteq> ''auto'' \<and> resolve_dtype ''cpu'' ''float64'' = Float32"
  using resolve_dtype_table [of "''cpu''" "''float64''"] by simp

section \<open>Size parsing: the string functions\<close>

lemma char_eq_code: "(c = d) = ((of_char c :: nat) = of_char d)"
  by simp

lemma of_char_lower_char:
  "(of_char (lower_char c) :: nat) =
     (if 65 \<le> (of_char c :: nat) \<and> (of_char c :: nat) \<le> 90 then of_char c + 32 else of_char c)"
  by (simp add: lower_char_def Let_def)

lemma lower_char_is_x: "(lower_char c = CHR ''x'') = is_sep c"
  unfolding is_sep_def char_eq_code [of _ "CHR ''x''"] char_eq_code [of _ "CHR ''X''"] of_char_lower_char
  by auto

lemma lower_char_isspace [simp]: "py_isspace (lower_char c) = py_isspace c"
  unfolding py_isspace_def Let_def of_char_lower_char by auto

lemma lower_char_is_digit [simp]: "is_digit (lower_char c) = is_digit c"
  unfolding is_digit_def Let_def of_char_lower_char by auto

lemma lower_char_digit_val: "is_digit c \<Longrightarrow> lower_char c = c"
  unfolding is_digit_def lower_char_def Let_def by auto

lemma lower_char_plus [simp]: "(lower_char c = CHR ''+'') = (c = CHR ''+'')"
  unfolding char_eq_code [of _ "CHR ''+''"] of_char_lower_char by auto

lemma lower_char_minus [simp]: "(lower_char c = CHR ''-'') = (c = CHR ''-'')"
  unfolding char_eq_code [of _ "CHR ''-''"] of_char_lower_char by auto

lemma lower_char_underscore [simp]: "(lower_char c = CHR ''_'') = (c = CHR ''_'')"
  unfolding char_eq_code [of _ "CHR ''_''"] of_char_lower_char by auto

lemma lower_char_dou [simp]: "is_digit_or_underscore (lower_char c) = is_digit_or_underscore c"
  by (simp add: is_digit_or_underscore_def)

lemma digits_ok_lower: "digits_ok (map lower_char s) = digits_ok s"
  by (induction s rule: digits_ok.induct) simp_all

lemma filter_digit_lower: "filter is_digit (map lower_char s) = filter is_digit s"
  by (induction s) (simp_all add: lower_char_digit_val)

lemma digits_value_lower: "digits_value (map lower_char s) = digits_value s"
  by (simp add: digits_value_def filter_digit_lower)

lemma dropWhile_lower:
  "(\<And>c. P (lower_char c) = P c) \<Longrightarrow> dropWhile P (map lower_char s) = map lower_char (dropWhile P s)"
  by (induction s) simp_all

lemma takeWhile_lower:
  "(\<And>c. P (lower_char c) = P c) \<Longrightarrow> takeWhile P (map lower_char s) = map lower_char (takeWhile P s)"
  by (induction s) simp_all

lemma int_digits_lower: "int_digits sg (map lower_char s) = int_digits sg s"
proof -
  have t: "takeWhile is_digit_or_underscore (map lower_char s)
             = map lower_char (takeWhile is_digit_or_underscore s)"
    by (simp add: takeWhile_lower)
  have d: "dropWhile py_isspace (dropWhile is_digit_or_underscore (map lower_char s))
             = map lower_char (dropWhile py_isspace (dropWhile is_digit_or_underscore s))"
    by (simp add: dropWhile_lower)
  show ?thesis
    unfolding int_digits_def Let_def t d digits_ok_lower digits_value_lower filter_digit_lower
      map_is_Nil_conv ..
qed

lemma py_int_lower: "py_int (lower_str s) = py_int s"
proof -
  have d1: "dropWhile py_isspace (map lower_char s) = map lower_char (dropWhile py_isspace s)"
    by (simp add: dropWhile_lower)
  show ?thesis
  proof (cases "dropWhile py_isspace s")
    case Nil
    show ?thesis
      unfolding py_int_def lower_str_def d1 Let_def Nil by simp
  next
    case (Cons c cs)
    have "int_digits 1 (lower_char c # map lower_char cs) = int_digits 1 (c # cs)"
      using int_digits_lower [of 1 "c # cs"] by simp
    then show ?thesis
      unfolding py_int_def lower_str_def d1 Let_def Cons by (simp add: int_digits_lower)
  qed
qed

lemma split_str_not_Nil: "split_str sep s \<noteq> []"
  by (induction s) (auto split: list.splits)

lemma split_str_no_sep: "sep \<notin> set a \<Longrightarrow> split_str sep a = [a]"
  by (induction a) auto

lemma split_str_at_sep: "sep \<notin> set a \<Longrightarrow> split_str sep (a @ sep # b) = a # split_str sep b"
  by (induction a) auto

lemma length_split_str: "length (split_str sep s) = Suc (length (filter (\<lambda>c. c = sep) s))"
  by (induction s) (auto split: list.splits simp: split_str_not_Nil)


lemma filter_one_dropWhile:
  "length (filter P s) = 1 \<Longrightarrow>
     \<exists>c b. dropWhile (\<lambda>c. \<not> P c) s = c # b \<and> P c \<and> (\<forall>x \<in> set b. \<not> P x)"
proof (induction s)
  case Nil
  then show ?case by simp
next
  case (Cons c cs)
  show ?case
  proof (cases "P c")
    case True
    with Cons.prems have "filter P cs = []" by simp
    then have "\<forall>x\<in>set cs. \<not> P x" by (simp add: filter_empty_conv)
    with True show ?thesis by simp
  next
    case False
    with Cons.prems have "length (filter P cs) = 1" by simp
    from Cons.IH [OF this] obtain c' b
      where "dropWhile (\<lambda>c. \<not> P c) cs = c' # b" "P c'" "\<forall>x \<in> set b. \<not> P x"
      by blast
    with False show ?thesis by simp
  qed
qed

lemma filter_x_lower:
  "filter (\<lambda>c. c = CHR ''x'') (map lower_char s) = map lower_char (filter is_sep s)"
  by (induction s) (simp_all add: lower_char_is_x)

lemma split_lower_parts:
  assumes c: "is_sep c"
    and na: "\<forall>x\<in>set a. \<not> is_sep x" and nb: "\<forall>x\<in>set b. \<not> is_sep x"
  shows "split_str (CHR ''x'') (lower_str (a @ c # b)) = [lower_str a, lower_str b]"
proof -
  have xa: "CHR ''x'' \<notin> set (map lower_char a)"
    using na by (auto simp: lower_char_is_x [symmetric])
  have xb: "CHR ''x'' \<notin> set (map lower_char b)"
    using nb by (auto simp: lower_char_is_x [symmetric])
  have lc: "lower_char c = CHR ''x''"
    using c by (simp add: lower_char_is_x)
  have "lower_str (a @ c # b) = map lower_char a @ CHR ''x'' # map lower_char b"
    by (simp add: lower_str_def lc)
  then show ?thesis
    by (simp add: split_str_at_sep [OF xa] split_str_no_sep [OF xb] lower_str_def)
qed

lemma split_lower_one:
  assumes "length (filter is_sep s) = 1"
  shows "split_str (CHR ''x'') (lower_str s) =
           [lower_str (takeWhile (\<lambda>c. \<not> is_sep c) s), lower_str (tl (dropWhile (\<lambda>c. \<not> is_sep c) s))]"
proof -
  from filter_one_dropWhile [OF assms] obtain c b
    where d: "dropWhile (\<lambda>c. \<not> is_sep c) s = c # b" and c: "is_sep c"
      and nb: "\<forall>x \<in> set b. \<not> is_sep x"
    by blast
  define a where "a = takeWhile (\<lambda>c. \<not> is_sep c) s"
  have na: "\<forall>x \<in> set a. \<not> is_sep x"
    unfolding a_def by (auto dest: set_takeWhileD)
  have "a @ c # b = s"
    unfolding a_def d [symmetric] by (rule takeWhile_dropWhile_id)
  then have "split_str (CHR ''x'') (lower_str s) = split_str (CHR ''x'') (lower_str (a @ c # b))"
    by (rule arg_cong [OF sym])
  also have "\<dots> = [lower_str a, lower_str b]"
    by (rule split_lower_parts [OF c na nb])
  finally show ?thesis
    unfolding a_def d by simp
qed

lemma length_split_lower:
  "length (split_str (CHR ''x'') (lower_str s)) = Suc (length (filter is_sep s))"
  by (simp add: length_split_str lower_str_def filter_x_lower)

lemma parse_size_characterisation:
  "parse_size s =
     (case size_form s of
        Some (w, h) \<Rightarrow> Inr (w, h)
      | None \<Rightarrow> Inl (ValueError (''Invalid size format: '' @ s)))"
proof (cases "length (filter is_sep s) = 1")
  case True
  have parts: "split_str (CHR ''x'') (lower_str s) =
      [lower_str (takeWhile (\<lambda>c. \<not> is_sep c) s), lower_str (tl (dropWhile (\<lambda>c. \<not> is_sep c) s))]"
    by (rule split_lower_one [OF True])
  show ?thesis
    unfolding parse_size_def size_form_def Let_def parts
    by (simp add: True py_int_lower split: option.splits)
next
  case False
  then have "length (split_str (CHR ''x'') (lower_str s)) \<noteq> 2"
    by (simp add: length_split_lower)
  with False show ?thesis
    by (simp add: parse_size_def size_form_def)
qed

section \<open>Size parsing: decimal numerals are read back\<close>

lemma is_digit_char_of: "d < 10 \<Longrightarrow> is_digit (char_of (48 + d :: nat))"
  by (simp add: is_digit_def)

lemma digit_val_char_of: "d < 10 \<Longrightarrow> digit_val (char_of (48 + d :: nat)) = d"
  by (simp add: digit_val_def)

lemma decimal_digits: "c \<in> set (decimal n) \<Longrightarrow> is_digit c"
proof (induction n arbitrary: c rule: decimal.induct)
  case (1 n)
  show ?case
  proof (cases "n < 10")
    case True
    with "1.prems" show ?thesis
      by (simp add: decimal.simps [of n] is_digit_char_of)
  next
    case False
    with "1.prems" "1.IH" show ?thesis
      by (auto simp: decimal.simps [of n] is_digit_char_of)
  qed
qed

lemma decimal_not_Nil: "decimal n \<noteq> []"
  by (subst decimal.simps) simp

lemma digits_value_snoc:
  "is_digit c \<Longrightarrow> digits_value (cs @ [c]) = 10 * digits_value cs + digit_val c"
  by (simp add: digits_value_def)

lemma digits_value_decimal: "digits_value (decimal n) = n"
proof (induction n rule: decimal.induct)
  case (1 n)
  show ?case
  proof (cases "n < 10")
    case True
    then show ?thesis
      by (simp add: decimal.simps [of n] digits_value_def is_digit_char_of digit_val_char_of)
  next
    case False
    with "1.IH" show ?thesis
      by (simp add: decimal.simps [of n] digits_value_snoc is_digit_char_of digit_val_char_of)
  qed
qed

lemma is_digit_not_underscore: "is_digit c \<Longrightarrow> c \<noteq> CHR ''_''"
  by (auto simp: is_digit_def)

lemma digits_ok_all_digits: "cs \<noteq> [] \<Longrightarrow> \<forall>c\<in>set cs. is_digit c \<Longrightarrow> digits_ok cs"
  by (induction cs rule: digits_ok.induct) (auto simp: is_digit_not_underscore)

lemma filter_digit_decimal: "filter is_digit (decimal n) = decimal n"
  by (simp add: decimal_digits)

lemma length_decimal_le: "n < 10 ^ k \<Longrightarrow> 0 < k \<Longrightarrow> length (decimal n) \<le> k"
proof (induction n arbitrary: k rule: decimal.induct)
  case (1 n)
  show ?case
  proof (cases "n < 10")
    case True
    with "1.prems" show ?thesis
      by (simp add: decimal.simps [of n])
  next
    case False
    from "1.prems" obtain j where k: "k = Suc j"
      by (cases k) simp_all
    from False "1.prems" k have "0 < j"
      by (cases j) simp_all
    moreover from "1.prems" k have "n div 10 < 10 ^ j"
      by (simp add: less_mult_imp_div_less mult.commute)
    ultimately have "length (decimal (n div 10)) \<le> j"
      using "1.IH" [of j] False by simp
    with False k show ?thesis
      by (simp add: decimal.simps [of n])
  qed
qed

lemma length_decimal_gt: "10 ^ k \<le> n \<Longrightarrow> k < length (decimal n)"
proof (induction k arbitrary: n)
  case 0
  then show ?case
    using decimal_not_Nil [of n] by (cases "decimal n") simp_all
next
  case (Suc k)
  have "(10::nat) * 1 \<le> 10 * 10 ^ k"
    by (rule mult_le_mono2) (rule one_le_power, simp)
  also have "\<dots> = 10 ^ Suc k"
    by simp
  also note Suc.prems
  finally have ten: "\<not> n < 10"
    by simp
  from Suc.prems have "10 ^ k \<le> n div 10"
    by (simp add: less_eq_div_iff_mult_less_eq mult.commute)
  then have "k < length (decimal (n div 10))"
    by (rule Suc.IH)
  with ten show ?case
    by (simp add: decimal.simps [of n])
qed

lemma int_digits_decimal:
  "int_digits sg (decimal n) =
     (if length (decimal n) \<le> int_max_str_digits then Some (sg * int n) else None)"
proof -
  have a: "\<forall>c\<in>set (decimal n). is_digit_or_underscore c"
    by (simp add: is_digit_or_underscore_def decimal_digits)
  then have t: "takeWhile is_digit_or_underscore (decimal n) = decimal n"
    by simp
  from a have d: "dropWhile is_digit_or_underscore (decimal n) = []"
    by simp
  have ok: "digits_ok (decimal n)"
    by (rule digits_ok_all_digits) (simp_all add: decimal_not_Nil decimal_digits)
  show ?thesis
    unfolding int_digits_def Let_def t d filter_digit_decimal
    by (simp add: ok digits_value_decimal)
qed

lemma decimal_no_space: "dropWhile py_isspace (decimal n) = decimal n"
proof (cases "decimal n")
  case Nil
  then show ?thesis by (simp add: decimal_not_Nil)
next
  case (Cons c cs)
  then have "is_digit c" using decimal_digits [of c n] by simp
  then have "\<not> py_isspace c" by (auto simp: is_digit_def py_isspace_def Let_def)
  with Cons show ?thesis by simp
qed

lemma decimal_hd: "decimal n = c # cs \<Longrightarrow> c \<noteq> CHR ''+'' \<and> c \<noteq> CHR ''-''"
  using decimal_digits [of c n] by (auto simp: is_digit_def)

lemma py_int_decimal:
  "py_int (decimal n) =
     (if length (decimal n) \<le> int_max_str_digits then Some (int n) else None)"
proof (cases "decimal n")
  case Nil
  then show ?thesis by (simp add: decimal_not_Nil)
next
  case (Cons c cs)
  from decimal_hd [OF Cons] have "c \<noteq> CHR ''+''" "c \<noteq> CHR ''-''" by simp_all
  moreover have "int_digits 1 (c # cs) =
      (if length (c # cs) \<le> int_max_str_digits then Some (int n) else None)"
    using int_digits_decimal [of 1 n] Cons by simp
  moreover have "dropWhile py_isspace (decimal n) = c # cs"
    using decimal_no_space [of n] Cons by simp
  ultimately show ?thesis
    by (simp add: py_int_def Cons)
qed

lemma py_int_minus_decimal:
  "py_int (CHR ''-'' # decimal n) =
     (if length (decimal n) \<le> int_max_str_digits then Some (- int n) else None)"
proof -
  have "py_int (CHR ''-'' # decimal n) = int_digits (- 1) (decimal n)"
    by (simp add: py_int_def py_isspace_def)
  then show ?thesis
    by (simp add: int_digits_decimal)
qed

lemma py_int_int_literal:
  assumes "\<bar>i\<bar> < 10 ^ int_max_str_digits"
  shows "py_int (int_literal i) = Some i"
proof -
  have pos: "0 < int_max_str_digits"
    by (simp add: int_max_str_digits_def)
  show ?thesis
  proof (cases "i < 0")
    case True
    with assms have "- i < 10 ^ int_max_str_digits"
      by (simp only: abs_of_neg)
    with True have "nat (- i) < 10 ^ int_max_str_digits"
      by (simp add: nat_less_iff)
    then have "length (decimal (nat (- i))) \<le> int_max_str_digits"
      using pos by (rule length_decimal_le)
    with True show ?thesis
      by (simp add: int_literal_def py_int_minus_decimal)
  next
    case False
    with assms have "i < 10 ^ int_max_str_digits"
      by (simp only: abs_of_nonneg not_less)
    with False have "nat i < 10 ^ int_max_str_digits"
      by (simp add: nat_less_iff)
    then have "length (decimal (nat i)) \<le> int_max_str_digits"
      using pos by (rule length_decimal_le)
    with False show ?thesis
      by (simp add: int_literal_def py_int_decimal)
  qed
qed

lemma int_literal_no_sep: "c \<in> set (int_literal i) \<Longrightarrow> \<not> is_sep c"
proof -
  have "is_digit c \<Longrightarrow> \<not> is_sep c"
    by (auto simp: is_digit_def is_sep_def)
  moreover have "\<not> is_sep (CHR ''-'')"
    by (simp add: is_sep_def)
  ultimately show "c \<in> set (int_literal i) \<Longrightarrow> \<not> is_sep c"
    by (auto simp: int_literal_def dest: decimal_digits split: if_splits)
qed

lemma size_form_parts:
  assumes "is_sep c"
    and nw: "\<forall>x\<in>set u. \<not> is_sep x" and nh: "\<forall>x\<in>set v. \<not> is_sep x"
  shows "size_form (u @ c # v) =
           (case py_int u of
              None \<Rightarrow> None
            | Some w \<Rightarrow> (case py_int v of None \<Rightarrow> None | Some h \<Rightarrow> Some (w, h)))"
proof -
  have f: "filter is_sep (u @ c # v) = [c]"
    using nw nh assms by (simp add: filter_empty_conv)
  have t: "takeWhile (\<lambda>c. \<not> is_sep c) (u @ c # v) = u"
    using nw assms by (simp add: takeWhile_append2)
  have d: "dropWhile (\<lambda>c. \<not> is_sep c) (u @ c # v) = c # v"
    using nw assms by (simp add: dropWhile_append2)
  show ?thesis
    unfolding size_form_def f t d list.sel by simp
qed

lemma size_form_literals:
  assumes "is_sep c" and "\<bar>a\<bar> < 10 ^ int_max_str_digits" and "\<bar>b\<bar> < 10 ^ int_max_str_digits"
  shows "size_form (int_literal a @ c # int_literal b) = Some (a, b)"
proof -
  have "\<forall>x\<in>set (int_literal a). \<not> is_sep x" and "\<forall>x\<in>set (int_literal b). \<not> is_sep x"
    by (simp_all add: int_literal_no_sep)
  from size_form_parts [OF assms(1) this] show ?thesis
    by (simp add: py_int_int_literal assms)
qed

section \<open>Size parsing: what makes a string fail\<close>

lemma int_digits_chars:
  "int_digits sg s = Some v \<Longrightarrow> c \<in> set s \<Longrightarrow> int_char c"
proof -
  assume v: "int_digits sg s = Some v" and c: "c \<in> set s"
  from v have sp: "\<forall>x \<in> set (dropWhile is_digit_or_underscore s). py_isspace x"
    by (simp add: int_digits_def Let_def split: if_splits)
  from c have "c \<in> set (takeWhile is_digit_or_underscore s @ dropWhile is_digit_or_underscore s)"
    by simp
  then have "c \<in> set (takeWhile is_digit_or_underscore s) \<or>
             c \<in> set (dropWhile is_digit_or_underscore s)"
    by (simp only: set_append Un_iff)
  then show "int_char c"
  proof
    assume "c \<in> set (takeWhile is_digit_or_underscore s)"
    then have "is_digit_or_underscore c" by (rule set_takeWhileD [THEN conjunct2])
    then show ?thesis by (auto simp: int_char_def is_digit_or_underscore_def)
  next
    assume "c \<in> set (dropWhile is_digit_or_underscore s)"
    with sp show ?thesis by (auto simp: int_char_def)
  qed
qed

lemma py_int_chars:
  assumes v: "py_int s = Some v" and c: "c \<in> set s"
  shows "int_char c"
proof -
  from c have "c \<in> set (takeWhile py_isspace s @ dropWhile py_isspace s)"
    by simp
  then have "c \<in> set (takeWhile py_isspace s) \<or> c \<in> set (dropWhile py_isspace s)"
    by (simp only: set_append Un_iff)
  then show ?thesis
  proof
    assume "c \<in> set (takeWhile py_isspace s)"
    then have "py_isspace c" by (rule set_takeWhileD [THEN conjunct2])
    then show ?thesis by (simp add: int_char_def)
  next
    assume d: "c \<in> set (dropWhile py_isspace s)"
    show ?thesis
    proof (cases "dropWhile py_isspace s")
      case Nil
      with d show ?thesis by simp
    next
      case (Cons x xs)
      from v Cons have alt:
        "(x = CHR ''+'' \<and> int_digits 1 xs = Some v) \<or>
         (x = CHR ''-'' \<and> int_digits (- 1) xs = Some v) \<or>
         int_digits 1 (x # xs) = Some v"
        by (auto simp: py_int_def Let_def split: if_splits)
      from d Cons have cx: "c = x \<or> c \<in> set xs" by auto
      from alt cx show ?thesis
        by (auto simp: int_char_def dest: int_digits_chars)
    qed
  qed
qed

lemma size_form_chars:
  assumes "size_form s = Some p" and "c \<in> set s"
  shows "is_sep c \<or> int_char c"
proof -
  from assms(1) have one: "length (filter is_sep s) = 1"
    by (simp add: size_form_def split: if_splits)
  from assms(1) one obtain w h
    where w: "py_int (takeWhile (\<lambda>c. \<not> is_sep c) s) = Some w"
      and h: "py_int (tl (dropWhile (\<lambda>c. \<not> is_sep c) s)) = Some h"
    by (auto simp: size_form_def split: option.splits)
  from filter_one_dropWhile [OF one] obtain x b
    where d: "dropWhile (\<lambda>c. \<not> is_sep c) s = x # b" and x: "is_sep x"
    by blast
  from assms(2) have "c \<in> set (takeWhile (\<lambda>c. \<not> is_sep c) s @ dropWhile (\<lambda>c. \<not> is_sep c) s)"
    by simp
  then have "c \<in> set (takeWhile (\<lambda>c. \<not> is_sep c) s) \<or> c = x \<or> c \<in> set b"
    by (simp only: set_append Un_iff d set_simps insert_iff)
  then show ?thesis
  proof (elim disjE)
    assume "c \<in> set (takeWhile (\<lambda>c. \<not> is_sep c) s)"
    with w show ?thesis by (auto dest: py_int_chars)
  next
    assume "c = x"
    with x show ?thesis by simp
  next
    assume "c \<in> set b"
    with h d show ?thesis by (auto dest: py_int_chars)
  qed
qed

lemma big_numeral_rejected:
  "py_int (decimal (10 ^ Suc int_max_str_digits - 1)) = None"
proof -
  have "(1::nat) \<le> 10 ^ int_max_str_digits"
    by (rule one_le_power) simp
  then have "(10::nat) ^ int_max_str_digits \<le> 10 ^ Suc int_max_str_digits - 1"
    by simp
  then have "int_max_str_digits < length (decimal (10 ^ Suc int_max_str_digits - 1))"
    by (rule length_decimal_gt)
  then show ?thesis
    by (simp add: py_int_decimal)
qed

lemma decimal_is_ascii: "is_ascii (decimal n)"
proof -
  have "\<And>c. is_digit c \<Longrightarrow> (of_char c :: nat) < 128"
    by (simp add: is_digit_def Let_def)
  then show ?thesis
    by (auto simp: is_ascii_def list_all_iff dest: decimal_digits)
qed

text \<open>
  Claim C2, as stated, fails: the numeral of 10 to the 4301 minus one (4301 nines, one
  digit more than \<open>int_max_str_digits\<close>) is
  an integer, so the string made of it, an \<open>x\<close> and \<open>1\<close> has the form
  \<open><int>x<int>\<close>, and it is an ASCII string; but \<^verbatim>\<open>int\<close> refuses a string of more
  than 4300 digits, and the parser fails on it.
\<close>

theorem long_numeral_counterexample:
  "is_ascii (decimal (10 ^ Suc int_max_str_digits - 1) @ ''x1'') \<and>
   parse_size (decimal (10 ^ Suc int_max_str_digits - 1) @ ''x1'') =
     Inl (ValueError (''Invalid size format: '' @ decimal (10 ^ Suc int_max_str_digits - 1) @ ''x1''))"
proof -
  have x: "is_sep (CHR ''x'')"
    by (simp add: is_sep_def)
  have n1: "\<forall>c\<in>set (decimal (10 ^ Suc int_max_str_digits - 1)). \<not> is_sep c"
    by (auto simp: is_digit_def is_sep_def dest: decimal_digits)
  have n2: "\<forall>c\<in>set ''1''. \<not> is_sep c"
    by (simp add: is_sep_def)
  have "size_form (decimal (10 ^ Suc int_max_str_digits - 1) @ CHR ''x'' # ''1'') = None"
    unfolding size_form_parts [OF x n1 n2] big_numeral_rejected by simp
  moreover have "is_ascii (decimal (10 ^ Suc int_max_str_digits - 1) @ ''x1'')"
    using decimal_is_ascii [of "10 ^ Suc int_max_str_digits - 1"]
    unfolding is_ascii_def by simp
  ultimately show ?thesis
    by (simp add: parse_size_characterisation)
qed

text \<open>
  Claim C2, amended. For ASCII strings: a size string with exactly one separator \<open>x\<close>
  (of either case) whose two parts are integers for \<^verbatim>\<open>int\<close> (white space around, a
  sign, single underscores between digits allowed, at most 4300 digits) parses to
  exactly that (width, height) pair, and every other ASCII string fails with the
  \<^verbatim>\<open>ValueError\<close> whose message is \<open>Invalid size format: \<close> followed by the
  offending string itself. In particular a string fails when the number of separators
  is not one (the empty string, no \<open>x\<close>, several \<open>x\<close>) and when it has a character
  that is neither a separator nor a character of integer strings; and the decimal
  numerals of two integers of at most 4300 digits, joined by \<open>x\<close> or \<open>X\<close>, parse back
  to these two integers.
\<close>

theorem parse_size_spec:
  "(is_ascii s \<longrightarrow>
      parse_size s =
        (case size_form s of
           Some (w, h) \<Rightarrow> Inr (w, h)
         | None \<Rightarrow> Inl (ValueError (''Invalid size format: '' @ s))))
   \<and> (is_ascii s \<and> length (filter is_sep s) \<noteq> 1 \<longrightarrow>
        parse_size s = Inl (ValueError (''Invalid size format: '' @ s)))
   \<and> (is_ascii s \<and> list_ex (\<lambda>c. \<not> is_sep c \<and> \<not> int_char c) s \<longrightarrow>
        parse_size s = Inl (ValueError (''Invalid size format: '' @ s)))
   \<and> (\<bar>a\<bar> < 10 ^ int_max_str_digits \<and> \<bar>b\<bar> < 10 ^ int_max_str_digits \<longrightarrow>
        parse_size (int_literal a @ ''x'' @ int_literal b) = Inr (a, b) \<and>
        parse_size (int_literal a @ ''X'' @ int_literal b) = Inr (a, b))"
proof (intro conjI impI)
  show "parse_size s =
        (case size_form s of
           Some (w, h) \<Rightarrow> Inr (w, h)
         | None \<Rightarrow> Inl (ValueError (''Invalid size format: '' @ s)))"
    by (rule parse_size_characterisation)
next
  assume "is_ascii s \<and> length (filter is_sep s) \<noteq> 1"
  then have "size_form s = None"
    by (simp add: size_form_def)
  then show "parse_size s = Inl (ValueError (''Invalid size format: '' @ s))"
    by (simp add: parse_size_characterisation)
next
  assume "is_ascii s \<and> list_ex (\<lambda>c. \<not> is_sep c \<and> \<not> int_char c) s"
  then obtain c where "c \<in> set s" "\<not> is_sep c" "\<not> int_char c"
    by (auto simp: list_ex_iff)
  then have "size_form s = None"
    using size_form_chars [of s _ c] by (cases "size_form s") auto
  then show "parse_size s = Inl (ValueError (''Invalid size format: '' @ s))"
    by (simp add: parse_size_characterisation)
next
  assume ab: "\<bar>a\<bar> < 10 ^ int_max_str_digits \<and> \<bar>b\<bar> < 10 ^ int_max_str_digits"
  have x: "is_sep (CHR ''x'')" and X: "is_sep (CHR ''X'')"
    by (simp_all add: is_sep_def)
  from ab show "parse_size (int_literal a @ ''x'' @ int_literal b) = Inr (a, b)"
    using size_form_literals [OF x, of a b] by (simp add: parse_size_characterisation)
  from ab show "parse_size (int_literal a @ ''X'' @ int_literal b) = Inr (a, b)"
    using size_form_literals [OF X, of a b] by (simp add: parse_size_characterisation)
qed

lemma small_below_limit: "(i::int) < 10 ^ 3 \<Longrightarrow> i < 10 ^ int_max_str_digits"
proof -
  have "(3::nat) \<le> int_max_str_digits"
    by (simp add: int_max_str_digits_def)
  then have "(10::int) ^ 3 \<le> 10 ^ int_max_str_digits"
    by (rule power_increasing) simp
  then show "i < 10 ^ 3 \<Longrightarrow> i < 10 ^ int_max_str_digits"
    by (rule less_le_trans [rotated])
qed

theorem parse_size_spec_witness:
  "is_ascii ''512X768'' \<and> parse_size ''512X768'' = Inr (512, 768) \<and>
   is_ascii ''bad'' \<and> length (filter is_sep ''bad'') \<noteq> 1 \<and>
   parse_size ''bad'' = Inl (ValueError ''Invalid size format: bad'') \<and>
   is_ascii ''12xa'' \<and> list_ex (\<lambda>c. \<not> is_sep c \<and> \<not> int_char c) ''12xa'' \<and>
   parse_size ''12xa'' = Inl (ValueError ''Invalid size format: 12xa'') \<and>
   \<bar>512 :: int\<bar> < 10 ^ int_max_str_digits \<and> \<bar>- 768 :: int\<bar> < 10 ^ int_max_str_digits \<and>
   parse_size (int_literal 512 @ ''x'' @ int_literal (- 768)) = Inr (512, - 768) \<and>
   parse_size (int_literal 512 @ ''X'' @ int_literal (- 768)) = Inr (512, - 768)"
proof -
  have a1: "is_ascii ''512X768''" and a2: "is_ascii ''bad''" and a3: "is_ascii ''12xa''"
    by (simp_all add: is_ascii_def)
  have f: "size_form ''512X768'' = Some (512, 768)"
    by code_simp
  have n: "length (filter is_sep ''bad'') \<noteq> 1"
    by (simp add: is_sep_def)
  have e: "list_ex (\<lambda>c. \<not> is_sep c \<and> \<not> int_char c) ''12xa''"
    by (simp add: is_sep_def int_char_def is_digit_def py_isspace_def)
  have l1: "\<bar>512 :: int\<bar> < 10 ^ int_max_str_digits" and l2: "\<bar>- 768 :: int\<bar> < 10 ^ int_max_str_digits"
    by (rule small_below_limit, simp)+
  note c1 = parse_size_spec [of "''512X768''" 512 "- 768", THEN conjunct1, THEN mp, OF a1]
  note c2 = parse_size_spec [of "''bad''" 0 0, THEN conjunct2, THEN conjunct1, THEN mp,
                OF conjI [OF a2 n]]
  note c3 = parse_size_spec [of "''12xa''" 0 0, THEN conjunct2, THEN conjunct2, THEN conjunct1,
                THEN mp, OF conjI [OF a3 e]]
  note c4 = parse_size_spec [of "''bad''" 512 "- 768", THEN conjunct2, THEN conjunct2,
                THEN conjunct2, THEN mp, OF conjI [OF l1 l2]]
  have r1: "parse_size ''512X768'' = Inr (512, 768)"
    using c1 unfolding f by simp
  have r2: "parse_size ''bad'' = Inl (ValueError ''Invalid size format: bad'')"
    using c2 by simp
  have r3: "parse_size ''12xa'' = Inl (ValueError ''Invalid size format: 12xa'')"
    using c3 by simp
  from a1 r1 a2 n r2 a3 e r3 l1 l2 c4 show ?thesis
    by (intro conjI) (erule conjunct1 conjunct2 | assumption)+
qed

section \<open>The generation endpoint: auxiliary facts\<close>

lemma generate_images_calls:
  "snd (generate_images w g request) =
     (case pipeline_global g of
        None \<Rightarrow> []
      | Some pl \<Rightarrow>
          if served_model_names g \<noteq> [] \<and> req_model request \<notin> set (served_model_names g) then []
          else (case parse_size (req_size request) of
                  Inl e \<Rightarrow> []
                | Inr (width, height) \<Rightarrow>
                    [\<lparr>arg_prompt = req_prompt request,
                      arg_num_images = Some (req_n request),
                      arg_width = Some width,
                      arg_height = Some height,
                      arg_num_inference_steps =
                        Some (if req_quality request = ''hd'' then 50 else 30),
                      arg_guidance_scale = None,
                      arg_negative_prompt = None,
                      arg_seed = None\<rparr>]))"
  by (simp add: generate_images_def Let_def split: option.splits sum.splits prod.splits)

lemma encode_images_b64:
  "encode_images w ''b64_json'' imgs data =
     Inr (data @ map (\<lambda>img. \<lparr>img_url = None, img_b64_json = Some (png_base64 w img),
                                  img_revised_prompt = None\<rparr>) imgs)"
  by (induction imgs arbitrary: data) simp_all

lemma encode_images_other:
  "fmt \<noteq> ''b64_json'' \<Longrightarrow>
   encode_images w fmt imgs data =
     (if imgs = [] then Inr data
      else Inl (HTTPException 400
               (''response_format '' @ apostrophe @ ''url'' @ apostrophe @
                '' not supported, use '' @ apostrophe @ ''b64_json'' @ apostrophe)))"
  by (cases imgs) simp_all

lemma parse_512: "parse_size ''512x512'' = Inr (512, 512)"
  by code_simp

lemma example_calls:
  "snd (generate_images example_world example_globals example_request) =
     [\<lparr>arg_prompt = ''a cat'', arg_num_images = Some 2, arg_width = Some 512,
       arg_height = Some 512, arg_num_inference_steps = Some 50,
       arg_guidance_scale = None, arg_negative_prompt = None, arg_seed = None\<rparr>]"
  by (simp add: generate_images_calls example_globals_def example_request_def parse_512)

section \<open>Quality mapping\<close>

text \<open>
  Claim C5. Every call of the runtime's \<^verbatim>\<open>generate\<close> that the handler makes for a
  request passes the step count 50 when the request's \<^verbatim>\<open>quality\<close> is \<open>hd\<close> and 30
  for every other value of \<^verbatim>\<open>quality\<close>, and this is the step count the runtime
  hands to the model.
\<close>

theorem quality_steps:
  "call \<in> set (snd (generate_images w g request)) \<Longrightarrow>
     arg_num_inference_steps call = Some (if req_quality request = ''hd'' then 50 else 30)
     \<and> kw_num_inference_steps (generate_kwargs pl call)
         = (if req_quality request = ''hd'' then 50 else 30)"
  by (auto simp: generate_images_calls generate_kwargs_def
           split: option.splits sum.splits prod.splits if_splits)

theorem quality_steps_witness:
  "hd (snd (generate_images example_world example_globals example_request))
     \<in> set (snd (generate_images example_world example_globals example_request)) \<and>
   req_quality example_request = ''hd'' \<and>
   arg_num_inference_steps
     (hd (snd (generate_images example_world example_globals example_request))) = Some 50 \<and>
   kw_num_inference_steps
     (generate_kwargs example_pipeline
        (hd (snd (generate_images example_world example_globals example_request)))) = 50 \<and>
   hd (snd (generate_images example_world example_globals
              (example_request\<lparr>req_quality := ''standard''\<rparr>)))
     \<in> set (snd (generate_images example_world example_globals
                   (example_request\<lparr>req_quality := ''standard''\<rparr>))) \<and>
   arg_num_inference_steps
     (hd (snd (generate_images example_world example_globals
                 (example_request\<lparr>req_quality := ''standard''\<rparr>)))) = Some 30 \<and>
   kw_num_inference_steps
     (generate_kwargs example_pipeline
        (hd (snd (generate_images example_world example_globals
                    (example_request\<lparr>req_quality := ''standard''\<rparr>))))) = 30"
proof -
  have q: "req_quality example_request = ''hd''"
    by (simp add: example_request_def)
  have a: "hd (snd (generate_images example_world example_globals example_request))
             \<in> set (snd (generate_images example_world example_globals example_request))"
    by (simp add: example_calls)
  have b: "hd (snd (generate_images example_world example_globals
                      (example_request\<lparr>req_quality := ''standard''\<rparr>)))
             \<in> set (snd (generate_images example_world example_globals
                           (example_request\<lparr>req_quality := ''standard''\<rparr>)))"
    by (simp add: generate_images_calls example_globals_def example_request_def parse_512)
  from quality_steps [OF a, of example_pipeline] quality_steps [OF b, of example_pipeline] q a b
  show ?thesis by simp
qed

section \<open>Arguments the handler leaves out\<close>

text \<open>
  Claim C10. Every call of the runtime made by the handler passes no seed, no negative
  prompt and no guidance scale (the request record has no such fields), so the runtime
  builds no generator, sets no negative prompt and uses the default guidance scale 7.5.
\<close>

theorem handler_omits_seed_negative_guidance:
  "call \<in> set (snd (generate_images w g request)) \<Longrightarrow>
     arg_seed call = None \<and> arg_negative_prompt call = None \<and> arg_guidance_scale call = None
     \<and> kw_generator (generate_kwargs pl call) = None
     \<and> kw_negative_prompt (generate_kwargs pl call) = None
     \<and> kw_guidance_scale (generate_kwargs pl call) = 7.5"
  by (auto simp: generate_images_calls generate_kwargs_def
           split: option.splits sum.splits prod.splits if_splits)

theorem handler_omits_seed_negative_guidance_witness:
  "hd (snd (generate_images example_world example_globals example_request))
     \<in> set (snd (generate_images example_world example_globals example_request)) \<and>
   arg_seed (hd (snd (generate_images example_world example_globals example_request))) = None \<and>
   arg_negative_prompt
     (hd (snd (generate_images example_world example_globals example_request))) = None \<and>
   arg_guidance_scale
     (hd (snd (generate_images example_world example_globals example_request))) = None \<and>
   kw_generator
     (generate_kwargs example_pipeline
        (hd (snd (generate_images example_world example_globals example_request)))) = None \<and>
   kw_negative_prompt
     (generate_kwargs example_pipeline
        (hd (snd (generate_images example_world example_globals example_request)))) = None \<and>
   kw_guidance_scale
     (generate_kwargs example_pipeline
        (hd (snd (generate_images example_world example_globals example_request)))) = 7.5"
proof -
  have a: "hd (snd (generate_images example_world example_globals example_request))
             \<in> set (snd (generate_images example_world example_globals example_request))"
    by (simp add: example_calls)
  from handler_omits_seed_negative_guidance [OF a, of example_pipeline] a
  show ?thesis by simp
qed

section \<open>The status of a failed encoding\<close>

lemma encode_images_status:
  "encode_images w fmt imgs data = Inl exc \<Longrightarrow> status_code exc = 400"
  by (cases "fmt = ''b64_json''") (auto simp: encode_images_b64 encode_images_other split: if_splits)

lemma generate_images_not_404:
  "served_model_names g = [] \<or> req_model request \<in> set (served_model_names g) \<Longrightarrow>
   status_code (fst (generate_images w g request)) \<noteq> 404"
  by (auto simp: generate_images_def Let_def dest: encode_images_status
           split: option.splits sum.splits prod.splits)

section \<open>Model name check\<close>

text \<open>
  Claim C6. With the runtime loaded: when the list of served names is not empty and the
  request's model is not in it, the handler answers 404 and makes no call of the
  runtime; when the list is empty the answer is never 404 and does not depend on the
  model name at all, so every name passes the check.
\<close>

theorem model_name_check:
  "pipeline_global g = Some pl \<Longrightarrow>
     (served_model_names g \<noteq> [] \<and> req_model request \<notin> set (served_model_names g) \<longrightarrow>
        status_code (fst (generate_images w g request)) = 404 \<and>
        snd (generate_images w g request) = [])
     \<and> (served_model_names g = [] \<longrightarrow>
        status_code (fst (generate_images w g request)) \<noteq> 404 \<and>
        generate_images w g (request\<lparr>req_model := name\<rparr>) = generate_images w g request)"
proof (intro conjI impI)
  assume "pipeline_global g = Some pl"
    and "served_model_names g \<noteq> [] \<and> req_model request \<notin> set (served_model_names g)"
  then show "status_code (fst (generate_images w g request)) = 404"
    and "snd (generate_images w g request) = []"
    by (simp_all add: generate_images_def)
next
  assume e: "served_model_names g = []"
  then show "status_code (fst (generate_images w g request)) \<noteq> 404"
    by (simp add: generate_images_not_404)
  from e show "generate_images w g (request\<lparr>req_model := name\<rparr>) = generate_images w g request"
    by (simp add: generate_images_def Let_def
          cong: option.case_cong sum.case_cong prod.case_cong if_cong)
qed

theorem model_name_check_witness:
  "pipeline_global example_globals = Some example_pipeline \<and>
   served_model_names example_globals \<noteq> [] \<and>
   req_model (example_request\<lparr>req_model := ''m2''\<rparr>) \<notin> set (served_model_names example_globals) \<and>
   status_code (fst (generate_images example_world example_globals
                       (example_request\<lparr>req_model := ''m2''\<rparr>))) = 404 \<and>
   snd (generate_images example_world example_globals (example_request\<lparr>req_model := ''m2''\<rparr>)) = [] \<and>
   pipeline_global (example_globals\<lparr>served_model_names := []\<rparr>) = Some example_pipeline \<and>
   served_model_names (example_globals\<lparr>served_model_names := []\<rparr>) = [] \<and>
   status_code (fst (generate_images example_world (example_globals\<lparr>served_model_names := []\<rparr>)
                       example_request)) \<noteq> 404 \<and>
   generate_images example_world (example_globals\<lparr>served_model_names := []\<rparr>)
       (example_request\<lparr>req_model := ''m2''\<rparr>)
     = generate_images example_world (example_globals\<lparr>served_model_names := []\<rparr>) example_request"
proof -
  have h1: "pipeline_global example_globals = Some example_pipeline"
    and h2: "served_model_names example_globals \<noteq> [] \<and>
      req_model (example_request\<lparr>req_model := ''m2''\<rparr>) \<notin> set (served_model_names example_globals)"
    and h3: "pipeline_global (example_globals\<lparr>served_model_names := []\<rparr>) = Some example_pipeline"
    and h4: "served_model_names (example_globals\<lparr>served_model_names := []\<rparr>) = []"
    by (simp_all add: example_globals_def)
  from model_name_check [OF h1, of "example_request\<lparr>req_model := ''m2''\<rparr>" example_world] h2
  have a: "status_code (fst (generate_images example_world example_globals
                       (example_request\<lparr>req_model := ''m2''\<rparr>))) = 404 \<and>
     snd (generate_images example_world example_globals (example_request\<lparr>req_model := ''m2''\<rparr>)) = []"
    by blast
  from model_name_check [OF h3, of example_request example_world "''m2''"] h4
  have b: "status_code (fst (generate_images example_world (example_globals\<lparr>served_model_names := []\<rparr>)
                       example_request)) \<noteq> 404 \<and>
     generate_images example_world (example_globals\<lparr>served_model_names := []\<rparr>)
       (example_request\<lparr>req_model := ''m2''\<rparr>)
     = generate_images example_world (example_globals\<lparr>served_model_names := []\<rparr>) example_request"
    by blast
  from h1 h2 h3 h4 a b show ?thesis by blast
qed

section \<open>The example request, run\<close>

lemma example_run:
  "generate_images example_world example_globals example_request =
     (Success \<lparr>resp_created = 1700000000,
               resp_data = [\<lparr>img_url = None, img_b64_json = Some ''A'', img_revised_prompt = None\<rparr>,
                            \<lparr>img_url = None, img_b64_json = Some ''AA'', img_revised_prompt = None\<rparr>]\<rparr>,
      [\<lparr>arg_prompt = ''a cat'', arg_num_images = Some 2, arg_width = Some 512,
        arg_height = Some 512, arg_num_inference_steps = Some 50,
        arg_guidance_scale = None, arg_negative_prompt = None, arg_seed = None\<rparr>])"
proof -
  have u: "[0..<2] = [0, Suc 0]"
    by (simp add: upt_rec)
  show ?thesis
    by (simp add: generate_images_def example_globals_def example_request_def parse_512
        generate_def generate_kwargs_def example_world_def example_pipeline_def
        encode_images_b64 u)
qed

lemma example_contract:
  "generate example_world pl call = Inr images \<Longrightarrow>
     int (length images) = kw_num_images_per_prompt (generate_kwargs pl call)"
  by (auto simp: generate_def example_world_def split: if_splits option.splits)

section \<open>The response data\<close>

text \<open>
  Claim C7. For a request answered with status 200, if the runtime returns as many
  images as the count it was asked for, the \<^verbatim>\<open>data\<close> array has exactly \<open>n\<close>
  entries: it is the list of images the one call of the runtime returned, each encoded,
  in the order returned.
\<close>

theorem response_data_length_order:
  assumes ok: "generate_images w g request = (Success resp, calls)"
    and contract: "\<And>pl call images. generate w pl call = Inr images \<Longrightarrow>
                     int (length images) = kw_num_images_per_prompt (generate_kwargs pl call)"
  shows "int (length (resp_data resp)) = req_n request \<and>
         (\<exists>pl call images.
            pipeline_global g = Some pl \<and> calls = [call] \<and> generate w pl call = Inr images \<and>
            resp_data resp =
              map (\<lambda>img. \<lparr>img_url = None, img_b64_json = Some (png_base64 w img),
                           img_revised_prompt = None\<rparr>) images)"
proof -
  from ok obtain pl where pl: "pipeline_global g = Some pl"
    by (auto simp: generate_images_def split: option.splits)
  from ok pl have served: "\<not> (served_model_names g \<noteq> [] \<and> req_model request \<notin> set (served_model_names g))"
    by (auto simp: generate_images_def split: if_splits)
  from ok pl served obtain width height where sz: "parse_size (req_size request) = Inr (width, height)"
    by (auto simp: generate_images_def split: sum.splits)
  define call where "call = \<lparr>arg_prompt = req_prompt request,
                      arg_num_images = Some (req_n request),
                      arg_width = Some width,
                      arg_height = Some height,
                      arg_num_inference_steps = Some (if req_quality request = ''hd'' then 50 else (30::int)),
                      arg_guidance_scale = None,
                      arg_negative_prompt = None,
                      arg_seed = None\<rparr>"
  from ok pl served sz obtain images where im: "generate w pl call = Inr images"
    by (auto simp: generate_images_def call_def Let_def split: sum.splits)
  from ok pl served sz im obtain data
    where enc: "encode_images w (req_response_format request) images [] = Inr data"
      and resp: "resp = \<lparr>resp_created = time_now w, resp_data = data\<rparr>" and calls: "calls = [call]"
    by (auto simp: generate_images_def call_def Let_def dest: encode_images_status
             split: sum.splits)
  have len: "int (length images) = req_n request"
    using contract [OF im] by (simp add: generate_kwargs_def call_def)
  have data: "data = map (\<lambda>img. \<lparr>img_url = None, img_b64_json = Some (png_base64 w img),
                           img_revised_prompt = None\<rparr>) images"
  proof (cases "req_response_format request = ''b64_json''")
    case True
    with enc show ?thesis by (simp add: encode_images_b64)
  next
    case False
    with enc show ?thesis by (simp add: encode_images_other split: if_splits)
  qed
  from len data have "int (length (resp_data resp)) = req_n request"
    by (simp add: resp)
  moreover from pl calls im data resp
  have "\<exists>pl call images.
            pipeline_global g = Some pl \<and> calls = [call] \<and> generate w pl call = Inr images \<and>
            resp_data resp =
              map (\<lambda>img. \<lparr>img_url = None, img_b64_json = Some (png_base64 w img),
                           img_revised_prompt = None\<rparr>) images"
    by auto
  ultimately show ?thesis by blast
qed

theorem response_data_length_order_witness:
  "int (length (resp_data
      \<lparr>resp_created = 1700000000,
        resp_data = [\<lparr>img_url = None, img_b64_json = Some ''A'', img_revised_prompt = None\<rparr>,
                     \<lparr>img_url = None, img_b64_json = Some ''AA'', img_revised_prompt = None\<rparr>]\<rparr>))
     = req_n example_request \<and>
   (\<exists>pl call images.
      pipeline_global example_globals = Some pl \<and>
      [\<lparr>arg_prompt = ''a cat'', arg_num_images = Some 2, arg_width = Some 512,
        arg_height = Some 512, arg_num_inference_steps = Some 50,
        arg_guidance_scale = None, arg_negative_prompt = None, arg_seed = None\<rparr>] = [call] \<and>
      generate example_world pl call = Inr images \<and>
      resp_data
        \<lparr>resp_created = 1700000000,
          resp_data = [\<lparr>img_url = None, img_b64_json = Some ''A'', img_revised_prompt = None\<rparr>,
                       \<lparr>img_url = None, img_b64_json = Some ''AA'', img_revised_prompt = None\<rparr>]\<rparr>
        = map (\<lambda>img. \<lparr>img_url = None, img_b64_json = Some (png_base64 example_world img),
                       img_revised_prompt = None\<rparr>) images)"
  by (rule response_data_length_order [OF example_run example_contract])

section \<open>Half precision and the CPU\<close>

text \<open>
  Claim C3, as stated, fails: the device hint \<open>cpu\<close> with the precision hint
  \<open>fp16\<close> resolves to fp16 on the CPU, because an explicit precision hint is mapped
  without looking at the device.
\<close>

theorem fp16_on_cpu_counterexample:
  "init_config \<lparr>cuda_is_available = False, mps_is_available = False\<rparr> ''cpu'' ''fp16''
     = (''cpu'', Float16)"
  by (simp add: init_config_def resolve_device_def resolve_dtype_def)

text \<open>
  Claim C3, amended. For every device hint and every hardware, a precision hint other
  than the explicit \<open>fp16\<close> never resolves to fp16 on the CPU; with the hint
  \<open>auto\<close>, fp16 is chosen exactly when the resolved device is cuda or mps; the
  explicit hint \<open>fp16\<close> gives fp16 on whatever device is resolved.
\<close>

theorem fp16_on_cpu_only_when_explicit:
  "(precision \<noteq> ''fp16'' \<longrightarrow> init_config hw device precision \<noteq> (''cpu'', Float16))
   \<and> (snd (init_config hw device ''auto'') = Float16
        \<longleftrightarrow> fst (init_config hw device ''auto'') = ''cuda''
            \<or> fst (init_config hw device ''auto'') = ''mps'')
   \<and> init_config hw device ''fp16'' = (resolve_device hw device, Float16)"
  by (simp add: init_config_def resolve_dtype_def Let_def)

theorem fp16_on_cpu_only_when_explicit_witness:
  "''auto'' \<noteq> ''fp16'' \<and>
   init_config \<lparr>cuda_is_available = False, mps_is_available = False\<rparr> ''auto'' ''auto''
     \<noteq> (''cpu'', Float16)"
  using fp16_on_cpu_only_when_explicit
          [of "''auto''" "\<lparr>cuda_is_available = False, mps_is_available = False\<rparr>" "''auto''"]
  by simp

lemma parse_0: "parse_size ''0x-5'' = Inr (0, - 5)"
  by code_simp

section \<open>The parameters of a generation call\<close>

text \<open>
  Claim C8, as stated, fails: a request that satisfies the schema and has the size
  \<open>0x-5\<close> reaches the runtime with width 0 and height -5, since the handler checks
  neither.
\<close>

theorem nonpositive_size_counterexample:
  "request_valid (example_request\<lparr>req_size := ''0x-5''\<rparr>) \<and>
   snd (generate_images example_world example_globals (example_request\<lparr>req_size := ''0x-5''\<rparr>)) =
     [\<lparr>arg_prompt = ''a cat'', arg_num_images = Some 2, arg_width = Some 0,
       arg_height = Some (- 5), arg_num_inference_steps = Some 50,
       arg_guidance_scale = None, arg_negative_prompt = None, arg_seed = None\<rparr>]"
  by (simp add: generate_images_calls example_globals_def example_request_def parse_0
        request_valid_def)

text \<open>
  Claim C8, amended. For a request that satisfies the schema, every call of the runtime
  made by the handler has an image count between 1 and 10 and a positive step count;
  the width and the height are the two integers parsed from the size string, whatever
  their sign.
\<close>

theorem generate_call_parameters:
  "request_valid request \<Longrightarrow> call \<in> set (snd (generate_images w g request)) \<Longrightarrow>
     (\<exists>k width height steps.
        arg_num_images call = Some k \<and> 1 \<le> k \<and> k \<le> 10 \<and>
        arg_num_inference_steps call = Some steps \<and> 0 < steps \<and>
        arg_width call = Some width \<and> arg_height call = Some height \<and>
        parse_size (req_size request) = Inr (width, height) \<and>
        kw_num_images_per_prompt (generate_kwargs pl call) = k \<and>
        kw_num_inference_steps (generate_kwargs pl call) = steps \<and>
        kw_width (generate_kwargs pl call) = width \<and>
        kw_height (generate_kwargs pl call) = height)"
  by (auto simp: generate_images_calls generate_kwargs_def request_valid_def
           split: option.splits sum.splits prod.splits if_splits)

theorem generate_call_parameters_witness:
  "request_valid example_request \<and>
   hd (snd (generate_images example_world example_globals example_request))
     \<in> set (snd (generate_images example_world example_globals example_request)) \<and>
   (\<exists>k width height steps.
      arg_num_images (hd (snd (generate_images example_world example_globals example_request)))
        = Some k \<and> 1 \<le> k \<and> k \<le> 10 \<and>
      arg_num_inference_steps
        (hd (snd (generate_images example_world example_globals example_request)))
        = Some steps \<and> 0 < steps \<and>
      arg_width (hd (snd (generate_images example_world example_globals example_request)))
        = Some width \<and>
      arg_height (hd (snd (generate_images example_world example_globals example_request)))
        = Some height \<and>
      parse_size (req_size example_request) = Inr (width, height) \<and>
      kw_num_images_per_prompt
        (generate_kwargs example_pipeline
           (hd (snd (generate_images example_world example_globals example_request)))) = k \<and>
      kw_num_inference_steps
        (generate_kwargs example_pipeline
           (hd (snd (generate_images example_world example_globals example_request)))) = steps \<and>
      kw_width
        (generate_kwargs example_pipeline
           (hd (snd (generate_images example_world example_globals example_request)))) = width \<and>
      kw_height
        (generate_kwargs example_pipeline
           (hd (snd (generate_images example_world example_globals example_request)))) = height)"
proof -
  have v: "request_valid example_request"
    by (simp add: request_valid_def example_request_def)
  have a: "hd (snd (generate_images example_world example_globals example_request))
             \<in> set (snd (generate_images example_world example_globals example_request))"
    by (simp add: example_calls)
  from generate_call_parameters [OF v a, of example_pipeline] v a
  show ?thesis by blast
qed

section \<open>Unsupported response formats\<close>

text \<open>
  Claim C1, as stated, fails: for a request with the response format \<open>url\<close> that
  passes the readiness, model name and size checks, the handler does call the runtime; the
  format is tested only afterwards, in the loop that encodes the images.
\<close>

theorem url_format_counterexample:
  "req_response_format (example_request\<lparr>req_response_format := ''url''\<rparr>) \<noteq> ''b64_json'' \<and>
   snd (generate_images example_world example_globals
          (example_request\<lparr>req_response_format := ''url''\<rparr>)) =
     [\<lparr>arg_prompt = ''a cat'', arg_num_images = Some 2, arg_width = Some 512,
       arg_height = Some 512, arg_num_inference_steps = Some 50,
       arg_guidance_scale = None, arg_negative_prompt = None, arg_seed = None\<rparr>]"
  by (simp add: generate_images_calls example_globals_def example_request_def parse_512)

text \<open>
  Claim C1, amended. For a request whose response format is not \<open>b64_json\<close> and that
  passes the readiness, model name and size checks, the handler calls the runtime exactly
  once; it answers 500 with the exception's message when that call raises, and 400 with
  the fixed message about the format when the call returns at least one image.
\<close>

theorem unsupported_format_after_generation:
  assumes "pipeline_global g = Some pl"
    and "served_model_names g = [] \<or> req_model request \<in> set (served_model_names g)"
    and "parse_size (req_size request) = Inr (width, height)"
    and "req_response_format request \<noteq> ''b64_json''"
  shows "\<exists>call. snd (generate_images w g request) = [call] \<and>
           (case generate w pl call of
              Inl e \<Rightarrow> fst (generate_images w g request) = HTTPException 500 (str_exc e)
            | Inr images \<Rightarrow>
                images \<noteq> [] \<longrightarrow>
                fst (generate_images w g request) =
                  HTTPException 400
                    (''response_format '' @ apostrophe @ ''url'' @ apostrophe @
                     '' not supported, use '' @ apostrophe @ ''b64_json'' @ apostrophe))"
  using assms
  by (auto simp: generate_images_def Let_def encode_images_other split: sum.splits)

theorem unsupported_format_after_generation_witness:
  "pipeline_global example_globals = Some example_pipeline \<and>
   (served_model_names example_globals = [] \<or>
    req_model (example_request\<lparr>req_response_format := ''url''\<rparr>)
      \<in> set (served_model_names example_globals)) \<and>
   parse_size (req_size (example_request\<lparr>req_response_format := ''url''\<rparr>)) = Inr (512, 512) \<and>
   req_response_format (example_request\<lparr>req_response_format := ''url''\<rparr>) \<noteq> ''b64_json'' \<and>
   (\<exists>call. snd (generate_images example_world example_globals
                   (example_request\<lparr>req_response_format := ''url''\<rparr>)) = [call] \<and>
           generate example_world example_pipeline call = Inr [0, 1] \<and>
           fst (generate_images example_world example_globals
                  (example_request\<lparr>req_response_format := ''url''\<rparr>)) =
             HTTPException 400
               (''response_format '' @ apostrophe @ ''url'' @ apostrophe @
                '' not supported, use '' @ apostrophe @ ''b64_json'' @ apostrophe))"
proof -
  have h1: "pipeline_global example_globals = Some example_pipeline"
    by (simp add: example_globals_def)
  have h2: "served_model_names example_globals = [] \<or>
    req_model (example_request\<lparr>req_response_format := ''url''\<rparr>)
      \<in> set (served_model_names example_globals)"
    by (simp add: example_globals_def example_request_def)
  have h3: "parse_size (req_size (example_request\<lparr>req_response_format := ''url''\<rparr>)) = Inr (512, 512)"
    by (simp add: example_request_def parse_512)
  have h4: "req_response_format (example_request\<lparr>req_response_format := ''url''\<rparr>) \<noteq> ''b64_json''"
    by simp
  have u: "[0..<2] = [0, Suc 0]"
    by (simp add: upt_rec)
  from unsupported_format_after_generation [OF h1 h2 h3 h4, of example_world]
  obtain call where c: "snd (generate_images example_world example_globals
                   (example_request\<lparr>req_response_format := ''url''\<rparr>)) = [call]"
    and r: "case generate example_world example_pipeline call of
              Inl e \<Rightarrow> fst (generate_images example_world example_globals
                   (example_request\<lparr>req_response_format := ''url''\<rparr>)) = HTTPException 500 (str_exc e)
            | Inr images \<Rightarrow>
                images \<noteq> [] \<longrightarrow>
                fst (generate_images example_world example_globals
                   (example_request\<lparr>req_response_format := ''url''\<rparr>)) =
                  HTTPException 400
                    (''response_format '' @ apostrophe @ ''url'' @ apostrophe @
                     '' not supported, use '' @ apostrophe @ ''b64_json'' @ apostrophe)"
    by blast
  from c have "call = \<lparr>arg_prompt = ''a cat'', arg_num_images = Some 2, arg_width = Some 512,
       arg_height = Some 512, arg_num_inference_steps = Some 50,
       arg_guidance_scale = None, arg_negative_prompt = None, arg_seed = None\<rparr>"
    by (simp add: generate_images_calls example_globals_def example_request_def parse_512)
  then have g: "generate example_world example_pipeline call = Inr [0, 1]"
    by (simp add: generate_def generate_kwargs_def example_world_def u)
  from r g have "fst (generate_images example_world example_globals
                   (example_request\<lparr>req_response_format := ''url''\<rparr>)) =
                  HTTPException 400
                    (''response_format '' @ apostrophe @ ''url'' @ apostrophe @
                     '' not supported, use '' @ apostrophe @ ''b64_json'' @ apostrophe)"
    by simp
  with h1 h2 h3 h4 c g show ?thesis by blast
qed

section \<open>Model loading\<close>

text \<open>
  Claim C9, as stated, fails: not every load failure is surfaced as the
  \<^verbatim>\<open>RuntimeError\<close>. With the manifest present and the generic loader successful, a
  failure of the move to the device (here \<open>cuda\<close>, which is not available) leaves
  \<^verbatim>\<open>_load_pipeline\<close> as the exception that was raised, with its own message.
\<close>

theorem device_move_failure_counterexample:
  "load_pipeline loading_world ''/models/auto'' ''cuda'' Float16 False =
     (Inl (OtherException ''CUDA is not available''), [DiffusionPipeline])"
  by (simp add: load_pipeline_def post_load_def loading_world_def os_path_join_def)

text \<open>
  Claim C9, amended. When the manifest \<open>model_index.json\<close> exists under the model
  path, the generic loader is the only one attempted; when it does not, the Stable
  Diffusion XL loader is attempted first and, only if it fails, the Stable Diffusion
  loader second. The pipeline that the successful loader returned is the one that is
  then moved to the device, optimised and returned. When the loader attempted last fails
  with an exception \<open>e\<close>, the method raises the one \<^verbatim>\<open>RuntimeError\<close> with the
  message \<open>Failed to load diffusers model from <path>: <str(e)>\<close>.
\<close>

theorem load_policy:
  "(if os_path_exists w (os_path_join model_path ''model_index.json'')
    then snd (load_pipeline w model_path dev dt sl) = [DiffusionPipeline] \<and>
         fst (load_pipeline w model_path dev dt sl) =
           (case from_pretrained w DiffusionPipeline model_path dt True of
              Inl e \<Rightarrow>
                Inl (RuntimeError
                  (''Failed to load diffusers model from '' @ model_path @ '': '' @ str_exc e))
            | Inr p \<Rightarrow> post_load w p dev sl)
    else (case from_pretrained w StableDiffusionXLPipeline model_path dt True of
            Inr p \<Rightarrow>
              snd (load_pipeline w model_path dev dt sl) = [StableDiffusionXLPipeline] \<and>
              fst (load_pipeline w model_path dev dt sl) = post_load w p dev sl
          | Inl e1 \<Rightarrow>
              snd (load_pipeline w model_path dev dt sl) =
                [StableDiffusionXLPipeline, StableDiffusionPipeline] \<and>
              fst (load_pipeline w model_path dev dt sl) =
                (case from_pretrained w StableDiffusionPipeline model_path dt True of
                   Inl e2 \<Rightarrow>
                     Inl (RuntimeError
                       (''Failed to load diffusers model from '' @ model_path @ '': '' @
                        str_exc e2))
                 | Inr p \<Rightarrow> post_load w p dev sl)))
   \<and> (pipeline_to w q dev = Inr q1 \<and>
        (if sl then pipeline_enable_attention_slicing w q1 else Inr q1) = Inr q2 \<longrightarrow>
        post_load w q dev sl =
          Inr (if dev = ''cuda'' then
                 (case pipeline_enable_xformers w q2 of Inr q3 \<Rightarrow> q3 | Inl _ \<Rightarrow> q2)
               else q2))"
proof (intro conjI impI)
  show "if os_path_exists w (os_path_join model_path ''model_index.json'')
    then snd (load_pipeline w model_path dev dt sl) = [DiffusionPipeline] \<and>
         fst (load_pipeline w model_path dev dt sl) =
           (case from_pretrained w DiffusionPipeline model_path dt True of
              Inl e \<Rightarrow>
                Inl (RuntimeError
                  (''Failed to load diffusers model from '' @ model_path @ '': '' @ str_exc e))
            | Inr p \<Rightarrow> post_load w p dev sl)
    else (case from_pretrained w StableDiffusionXLPipeline model_path dt True of
            Inr p \<Rightarrow>
              snd (load_pipeline w model_path dev dt sl) = [StableDiffusionXLPipeline] \<and>
              fst (load_pipeline w model_path dev dt sl) = post_load w p dev sl
          | Inl e1 \<Rightarrow>
              snd (load_pipeline w model_path dev dt sl) =
                [StableDiffusionXLPipeline, StableDiffusionPipeline] \<and>
              fst (load_pipeline w model_path dev dt sl) =
                (case from_pretrained w StableDiffusionPipeline model_path dt True of
                   Inl e2 \<Rightarrow>
                     Inl (RuntimeError
                       (''Failed to load diffusers model from '' @ model_path @ '': '' @
                        str_exc e2))
                 | Inr p \<Rightarrow> post_load w p dev sl))"
    by (simp add: load_pipeline_def Let_def split: sum.splits)
next
  assume "pipeline_to w q dev = Inr q1 \<and>
          (if sl then pipeline_enable_attention_slicing w q1 else Inr q1) = Inr q2"
  then show "post_load w q dev sl =
          Inr (if dev = ''cuda'' then
                 (case pipeline_enable_xformers w q2 of Inr q3 \<Rightarrow> q3 | Inl _ \<Rightarrow> q2)
               else q2)"
    by (simp add: post_load_def)
qed

theorem load_policy_witness:
  "load_pipeline loading_world ''/models/auto'' ''cpu'' Float32 True =
     (Inr (DiffusionPipeline, [''to cpu'', ''attention slicing'']), [DiffusionPipeline]) \<and>
   load_pipeline loading_world ''/models/sdxl'' ''mps'' Float16 False =
     (Inr (StableDiffusionXLPipeline, [''to mps'']), [StableDiffusionXLPipeline]) \<and>
   load_pipeline loading_world ''/models/sd15'' ''cpu'' Float32 False =
     (Inr (StableDiffusionPipeline, [''to cpu'']),
      [StableDiffusionXLPipeline, StableDiffusionPipeline]) \<and>
   load_pipeline loading_world ''/models/broken'' ''cpu'' Float32 False =
     (Inl (RuntimeError ''Failed to load diffusers model from /models/broken: no weights''),
      [StableDiffusionXLPipeline, StableDiffusionPipeline])"
proof -
  have j: "\<And>path. os_path_exists loading_world (os_path_join path ''model_index.json'')
             = (os_path_join path ''model_index.json'' = ''/models/auto/model_index.json'')"
    by (simp add: loading_world_def)
  have a: "load_pipeline loading_world ''/models/auto'' ''cpu'' Float32 True =
     (Inr (DiffusionPipeline, [''to cpu'', ''attention slicing'']), [DiffusionPipeline])"
    using load_policy [of loading_world "''/models/auto''" "''cpu''" Float32 True
                          "(DiffusionPipeline, [])" "(DiffusionPipeline, [''to cpu''])"
                          "(DiffusionPipeline, [''to cpu'', ''attention slicing''])"]
    by (simp add: j os_path_join_def loading_world_def prod_eq_iff)
  have b: "load_pipeline loading_world ''/models/sdxl'' ''mps'' Float16 False =
     (Inr (StableDiffusionXLPipeline, [''to mps'']), [StableDiffusionXLPipeline])"
    using load_policy [of loading_world "''/models/sdxl''" "''mps''" Float16 False
                          "(StableDiffusionXLPipeline, [])" "(StableDiffusionXLPipeline, [''to mps''])"
                          "(StableDiffusionXLPipeline, [''to mps''])"]
    by (simp add: j os_path_join_def loading_world_def prod_eq_iff)
  have c: "load_pipeline loading_world ''/models/sd15'' ''cpu'' Float32 False =
     (Inr (StableDiffusionPipeline, [''to cpu'']),
      [StableDiffusionXLPipeline, StableDiffusionPipeline])"
    using load_policy [of loading_world "''/models/sd15''" "''cpu''" Float32 False
                          "(StableDiffusionPipeline, [])" "(StableDiffusionPipeline, [''to cpu''])"
                          "(StableDiffusionPipeline, [''to cpu''])"]
    by (simp add: j os_path_join_def loading_world_def prod_eq_iff)
  have d: "load_pipeline loading_world ''/models/broken'' ''cpu'' Float32 False =
     (Inl (RuntimeError ''Failed to load diffusers model from /models/broken: no weights''),
      [StableDiffusionXLPipeline, StableDiffusionPipeline])"
    using load_policy [of loading_world "''/models/broken''" "''cpu''" Float32 False
                          "(StableDiffusionPipeline, [])" "(StableDiffusionPipeline, [''to cpu''])"
                          "(StableDiffusionPipeline, [''to cpu''])"]
    by (simp add: j os_path_join_def loading_world_def prod_eq_iff)
  from a b c d show ?thesis
    by (intro conjI)
qed

end
